theory Spec2Isabelle
  imports Main "HOL-Library.Word" "HOL-Library.Signed_Division"
begin

unbundle bit_operations_syntax

section \<open>pullhook: a shallow embedding of main.go\<close>

text \<open>
  The development follows \<^verbatim>\<open>main.go\<close> function by function: \<^verbatim>\<open>roundTime\<close>,
  \<^verbatim>\<open>normalizeUTF8\<close>, \<^verbatim>\<open>pullRepo\<close>, \<^verbatim>\<open>server.ServeHTTP\<close>, \<^verbatim>\<open>mainImpl\<close> and
  \<^verbatim>\<open>main\<close>. Go's \<^verbatim>\<open>string\<close> and \<^verbatim>\<open>[]byte\<close> are byte sequences and are modelled as
  lists of 8-bit words; \<^verbatim>\<open>time.Duration\<close> is an \<^verbatim>\<open>int64\<close> count of nanoseconds and is
  modelled as a 64-bit word read in two's complement.
\<close>

type_synonym byte = "8 word"
type_synonym bytes = "byte list"

text \<open>
  A Go \<^verbatim>\<open>string\<close> is written as an Isabelle \<open>string\<close>, whose characters are bytes as
  well; \<open>bytes_of\<close> and \<open>string_of\<close> are the conversions \<^verbatim>\<open>[]byte(s)\<close> and
  \<^verbatim>\<open>string(b)\<close>, which keep every byte.
\<close>

definition bytes_of :: "string \<Rightarrow> bytes" where
  "bytes_of s = map of_char s"

definition string_of :: "bytes \<Rightarrow> string" where
  "string_of b = map (\<lambda>w. char_of (unat w)) b"

section \<open>normalizeUTF8\<close>

text \<open>
  \<^verbatim>\<open>normalizeUTF8\<close> rests on \<^verbatim>\<open>utf8.Valid\<close> and \<^verbatim>\<open>utf8.DecodeRune\<close> of Go's standard
  library, which are modelled here after the library: the table \<^verbatim>\<open>first\<close> of the lead
  bytes (\<^verbatim>\<open>as\<close> for ASCII, \<^verbatim>\<open>xx\<close> for an invalid lead byte, otherwise the sequence
  length in the low three bits and the index of the accepted range of the second byte in
  the high four), the table \<^verbatim>\<open>acceptRanges\<close>, and the two functions. A \<^verbatim>\<open>rune\<close> is an
  \<^verbatim>\<open>int32\<close>.
\<close>

type_synonym rune = "32 word"

definition RuneError :: rune where "RuneError = 0xFFFD"

definition xx :: byte where "xx = 0xF1"
definition as :: byte where "as = 0xF0"

definition first :: "byte \<Rightarrow> byte" where
  "first b =
     (if b < 0x80 then as
      else if b < 0xC2 then xx
      else if b < 0xE0 then 0x02
      else if b = 0xE0 then 0x13
      else if b < 0xED then 0x03
      else if b = 0xED then 0x23
      else if b < 0xF0 then 0x03
      else if b = 0xF0 then 0x34
      else if b < 0xF4 then 0x04
      else if b = 0xF4 then 0x44
      else xx)"

definition locb :: byte where "locb = 0x80"
definition hicb :: byte where "hicb = 0xBF"

definition acceptRanges :: "byte \<Rightarrow> byte \<times> byte" where
  "acceptRanges i =
     (if i = 0 then (locb, hicb)
      else if i = 1 then (0xA0, hicb)
      else if i = 2 then (locb, 0x9F)
      else if i = 3 then (0x90, hicb)
      else (locb, 0x8F))"

text \<open>
  \<^verbatim>\<open>utf8.DecodeRune(p)\<close>: the first code point of \<open>p\<close> and the number of bytes of its
  encoding; \<^verbatim>\<open>(RuneError, 0)\<close> for the empty slice and \<^verbatim>\<open>(RuneError, 1)\<close> for an ill-formed
  or truncated sequence. A well-formed encoding of U+FFFD yields \<^verbatim>\<open>(RuneError, 3)\<close>.
\<close>

definition DecodeRune :: "bytes \<Rightarrow> rune \<times> nat" where
  "DecodeRune p =
     (let n = length p in
      if n < 1 then (RuneError, 0)
      else
        let p0 = p ! 0; x = first p0 in
        if x \<ge> as then (if x = xx then RuneError else ucast p0, 1)
        else
          let sz = unat (x AND 7); (lo, hi) = acceptRanges (drop_bit 4 x) in
          if n < sz then (RuneError, 1)
          else
            let b1 = p ! 1 in
            if b1 < lo \<or> hi < b1 then (RuneError, 1)
            else if sz \<le> 2 then
              (push_bit 6 (ucast (p0 AND 0x1F)) OR ucast (b1 AND 0x3F), 2)
            else
              let b2 = p ! 2 in
              if b2 < locb \<or> hicb < b2 then (RuneError, 1)
              else if sz \<le> 3 then
                (push_bit 12 (ucast (p0 AND 0x0F)) OR push_bit 6 (ucast (b1 AND 0x3F))
                   OR ucast (b2 AND 0x3F), 3)
              else
                let b3 = p ! 3 in
                if b3 < locb \<or> hicb < b3 then (RuneError, 1)
                else
                  (push_bit 18 (ucast (p0 AND 0x07)) OR push_bit 12 (ucast (b1 AND 0x3F))
                     OR push_bit 6 (ucast (b2 AND 0x3F)) OR ucast (b3 AND 0x3F), 4))"


lemma first_cases:
  "first b = as \<or> first b = xx \<or> first b = 0x02 \<or> first b = 0x13 \<or> first b = 0x03 \<or> first b = 0x23
   \<or> first b = 0x34 \<or> first b = 0x04 \<or> first b = 0x44"
  by (simp add: first_def)

lemma DecodeRune_size_aux:
  assumes "x = as \<or> x = xx \<or> x = 0x02 \<or> x = 0x13 \<or> x = 0x03 \<or> x = 0x23
   \<or> x = 0x34 \<or> x = 0x04 \<or> x = 0x44" "first (p ! 0) = x" "p \<noteq> []"
  shows "1 \<le> snd (DecodeRune p) \<and> snd (DecodeRune p) \<le> length p"
  using assms(1)
proof (elim disjE)
  assume "x = as" then show ?thesis using assms(2,3)
    by (cases p) (simp_all add: DecodeRune_def Let_def as_def xx_def)
next
  assume "x = xx" then show ?thesis using assms(2,3)
    by (cases p) (simp_all add: DecodeRune_def Let_def as_def xx_def)
next
  assume "x = 0x02" then show ?thesis using assms(2,3)
    by (cases p) (simp_all add: DecodeRune_def Let_def as_def xx_def acceptRanges_def Suc_le_eq not_less split: prod.splits)
next
  assume "x = 0x13" then show ?thesis using assms(2,3)
    by (cases p) (simp_all add: DecodeRune_def Let_def as_def xx_def acceptRanges_def Suc_le_eq not_less split: prod.splits)
next
  assume "x = 0x03" then show ?thesis using assms(2,3)
    by (cases p) (simp_all add: DecodeRune_def Let_def as_def xx_def acceptRanges_def Suc_le_eq not_less split: prod.splits)
next
  assume "x = 0x23" then show ?thesis using assms(2,3)
    by (cases p) (simp_all add: DecodeRune_def Let_def as_def xx_def acceptRanges_def Suc_le_eq not_less split: prod.splits)
next
  assume "x = 0x34" then show ?thesis using assms(2,3)
    by (cases p) (simp_all add: DecodeRune_def Let_def as_def xx_def acceptRanges_def Suc_le_eq not_less split: prod.splits)
next
  assume "x = 0x04" then show ?thesis using assms(2,3)
    by (cases p) (simp_all add: DecodeRune_def Let_def as_def xx_def acceptRanges_def Suc_le_eq not_less split: prod.splits)
next
  assume "x = 0x44" then show ?thesis using assms(2,3)
    by (cases p) (simp_all add: DecodeRune_def Let_def as_def xx_def acceptRanges_def Suc_le_eq not_less split: prod.splits)
qed

lemma DecodeRune_size: "p \<noteq> [] \<Longrightarrow> 1 \<le> snd (DecodeRune p) \<and> snd (DecodeRune p) \<le> length p"
  using DecodeRune_size_aux [OF first_cases refl] by blast


lemma first_size:
  "\<not> b < 0x80 \<Longrightarrow> first b \<noteq> xx \<Longrightarrow>
     unat (first b AND 7) = 2 \<or> unat (first b AND 7) = 3 \<or> unat (first b AND 7) = 4"
  by (auto simp: first_def xx_def as_def split: if_splits)

text \<open>\<^verbatim>\<open>utf8.Valid(p)\<close>: the loop over \<^verbatim>\<open>p[i:]\<close>, as a recursion on the remaining bytes.\<close>

function Valid :: "bytes \<Rightarrow> bool" where
  "Valid p =
     (if p = [] then True
      else
        let pi = p ! 0 in
        if pi < 0x80 then Valid (drop 1 p)
        else
          let x = first pi in
          if x = xx then False
          else
            let sz = unat (x AND 7) in
            if length p < sz then False
            else
              let (lo, hi) = acceptRanges (drop_bit 4 x) in
              if p ! 1 < lo \<or> hi < p ! 1 then False
              else if sz = 2 then Valid (drop sz p)
              else if p ! 2 < locb \<or> hicb < p ! 2 then False
              else if sz = 3 then Valid (drop sz p)
              else if p ! 3 < locb \<or> hicb < p ! 3 then False
              else Valid (drop sz p))"
  by pat_completeness auto
termination
proof (relation "measure length", goal_cases)
  case 1
  show ?case by simp
next
  case (2 p pi)
  then show ?case by simp
next
  case (3 p pi x sz)
  then show ?case using first_size [of "p ! 0"] by auto
next
  case (4 p pi x sz)
  then show ?case using first_size [of "p ! 0"] by auto
next
  case (5 p pi x sz)
  then show ?case using first_size [of "p ! 0"] by auto
qed

text \<open>
  \<^verbatim>\<open>func normalizeUTF8(b []byte) []byte\<close>, lines 35-48. The loop
  \<^verbatim>\<open>for len(b) != 0\<close> is \<open>normalize_loop\<close>, with the slice \<^verbatim>\<open>out\<close> as accumulator.
\<close>

function normalize_loop :: "bytes \<Rightarrow> bytes \<Rightarrow> bytes" where
  "normalize_loop out b =
     (if length b \<noteq> 0 then
        (case DecodeRune b of (r, sz) \<Rightarrow>
           normalize_loop (if r \<noteq> RuneError then out @ take sz b else out) (drop sz b))
      else out)"
  by pat_completeness auto
termination
proof (relation "measure (\<lambda>(out, b). length b)", goal_cases)
  case 1
  show ?case by simp
next
  case 2
  then show ?case using DecodeRune_size by (fastforce simp: snd_def split: prod.splits)
qed

definition normalizeUTF8 :: "bytes \<Rightarrow> bytes" where
  "normalizeUTF8 b = (if Valid b then b else normalize_loop [] b)"

subsection \<open>Claim C7: what normalizeUTF8 keeps\<close>

text \<open>
  Claim C7, which \<^verbatim>\<open>normalizeUTF8\<close> does not satisfy. The three bytes EF BF BD are the
  well-formed encoding of U+FFFD, for which \<^verbatim>\<open>utf8.DecodeRune\<close> returns
  \<^verbatim>\<open>(RuneError, 3)\<close>. Alone they are valid and returned as they are. Followed by the
  ill-formed byte FF they are dropped together with it, because the loop tests
  \<^verbatim>\<open>r != utf8.RuneError\<close> and not the size: the result is empty and not the
  well-formed unit of the input.
\<close>

theorem normalizeUTF8_drops_U_FFFD:
  "DecodeRune [0xEF, 0xBF, 0xBD] = (RuneError, 3) \<and>
   Valid [0xEF, 0xBF, 0xBD] \<and>
   normalizeUTF8 [0xEF, 0xBF, 0xBD] = [0xEF, 0xBF, 0xBD] \<and>
   \<not> Valid [0xEF, 0xBF, 0xBD, 0xFF] \<and>
   DecodeRune [0xFF] = (RuneError, 1) \<and>
   normalizeUTF8 [0xEF, 0xBF, 0xBD, 0xFF] = []"
  by code_simp

section \<open>roundTime\<close>

type_synonym Duration = "64 word"

definition Nanosecond :: Duration where "Nanosecond = 1"
definition Microsecond :: Duration where "Microsecond = 1000 * Nanosecond"
definition Millisecond :: Duration where "Millisecond = 1000 * Microsecond"
definition Second :: Duration where "Second = 1000 * Millisecond"

text \<open>
  Go's \<^verbatim>\<open>/\<close> on \<^verbatim>\<open>int64\<close>: the quotient truncated towards zero, wrapped to 64 bits.
  The divisors of \<^verbatim>\<open>roundTime\<close> are non-zero constants.
\<close>

definition quo64 :: "64 word \<Rightarrow> 64 word \<Rightarrow> 64 word" where
  "quo64 a b = word_of_int (sint a sdiv sint b)"

text \<open>
  \<^verbatim>\<open>func roundTime(t time.Duration) time.Duration\<close>, lines 52-63. The comparisons are
  signed; \<^verbatim>\<open>+\<close> and \<^verbatim>\<open>*\<close> wrap around as Go's do.
\<close>

definition roundTime :: "Duration \<Rightarrow> Duration" where
  "roundTime t =
     (if t <s Millisecond then t
      else if t <s Second then
        quo64 (t + quo64 Microsecond 2) Microsecond * Microsecond
      else quo64 (t + quo64 Millisecond 2) Millisecond * Millisecond)"

text \<open>
  The specification's rounding rule, in its own words: \<open>r\<close> is \<open>d\<close> rounded to the
  nearest multiple of \<open>unit\<close>, a tie going away from zero.
\<close>

definition rounds_half_away :: "int \<Rightarrow> int \<Rightarrow> int \<Rightarrow> bool" where
  "rounds_half_away unit d r \<longleftrightarrow>
     unit dvd r \<and> 2 * \<bar>r - d\<bar> \<le> unit \<and> (2 * \<bar>r - d\<bar> = unit \<longrightarrow> \<bar>d\<bar> < \<bar>r\<bar>)"

lemma sint_units:
  "sint Microsecond = 1000" "sint Millisecond = 1000000" "sint Second = 1000000000"
  by (simp_all add: Second_def Millisecond_def Microsecond_def Nanosecond_def)

lemma half_units:
  "quo64 Microsecond 2 = 500" "quo64 Millisecond 2 = 500000"
  by (simp_all add: quo64_def sint_units signed_divide_int_def)

lemma sint_64_range: "- (2 ^ 63) \<le> sint (w :: 64 word) \<and> sint w < 2 ^ 63"
  using sint_ge [of w] sint_lt [of w] by simp

lemma sint_add_in_range:
  fixes a b :: "64 word"
  assumes "- (2 ^ 63) \<le> sint a + sint b" "sint a + sint b < 2 ^ 63"
  shows "sint (a + b) = sint a + sint b"
  using assms by (simp add: sint_word_add signed_take_bit_int_eq_self)

lemma sint_quo64_pos:
  fixes a b :: "64 word"
  assumes "0 \<le> sint a" "0 < sint b"
  shows "sint (quo64 a b) = sint a div sint b"
proof -
  have q: "sint a sdiv sint b = sint a div sint b"
    using assms by (simp add: signed_divide_int_def sgn_if)
  have "0 \<le> sint a div sint b" using assms by (simp add: pos_imp_zdiv_nonneg_iff)
  moreover have "sint a div sint b \<le> sint a"
    using zdiv_mono2 [of "sint a" 1 "sint b"] assms by simp
  ultimately have "- (2 ^ 63) \<le> sint a div sint b \<and> sint a div sint b < 2 ^ 63"
    using sint_64_range [of a] by linarith
  then show ?thesis
    by (simp add: quo64_def q sint_sbintrunc' signed_take_bit_int_eq_self)
qed

text \<open>One rounded tier, as long as adding half a unit does not leave the \<^verbatim>\<open>int64\<close> range.\<close>

lemma round_tier:
  fixes t u h :: "64 word"
  assumes u: "0 < sint u" and h: "sint h = sint u div 2"
    and lo: "0 \<le> sint t" and hi: "sint t + sint u div 2 < 2 ^ 63"
  shows "sint (quo64 (t + h) u * u) = (sint t + sint u div 2) div sint u * sint u"
proof -
  have h0: "0 \<le> sint h" using u h by simp
  have s: "sint (t + h) = sint t + sint u div 2"
    using sint_add_in_range [of t h] lo hi h h0 by simp
  have q: "sint (quo64 (t + h) u) = (sint t + sint u div 2) div sint u"
    using sint_quo64_pos [of "t + h" u] u s lo h0 h by simp
  let ?q = "(sint t + sint u div 2) div sint u"
  have "0 \<le> ?q" using u lo h0 h by (simp add: pos_imp_zdiv_nonneg_iff)
  then have p0: "0 \<le> ?q * sint u" using u by simp
  have "?q * sint u \<le> sint t + sint u div 2"
    using u by (simp add: div_mult_self_is_m minus_mod_eq_div_mult [symmetric])
  then have "?q * sint u < 2 ^ 63" using hi by linarith
  then show ?thesis
    using p0 by (simp add: sint_word_mult q signed_take_bit_int_eq_self)
qed

lemma half_away_int:
  fixes d u :: int
  assumes "0 \<le> d" "0 < u" "even u"
  shows "rounds_half_away u d ((d + u div 2) div u * u)"
proof -
  define r where "r = (d + u div 2) div u * u"
  define m where "m = (d + u div 2) mod u"
  have e: "r = d + u div 2 - m"
    unfolding r_def m_def by (simp add: minus_mod_eq_div_mult)
  have m: "0 \<le> m" "m < u" using assms unfolding m_def by simp_all
  obtain k where k: "u = 2 * k" using assms(3) by (elim evenE)
  have kp: "0 < k" using assms(2) k by simp
  have rd: "r - d = k - m" using e k by simp
  have "u dvd r" unfolding r_def by simp
  moreover have "2 * \<bar>r - d\<bar> \<le> u" using rd m k kp by (simp add: abs_if)
  moreover have "2 * \<bar>r - d\<bar> = u \<longrightarrow> \<bar>d\<bar> < \<bar>r\<bar>"
  proof
    assume "2 * \<bar>r - d\<bar> = u"
    then have "m = 0" using rd m k kp by (simp add: abs_if split: if_splits)
    then have "r = d + k" using rd by simp
    then show "\<bar>d\<bar> < \<bar>r\<bar>" using assms(1) kp by simp
  qed
  ultimately show ?thesis
    unfolding rounds_half_away_def r_def by blast
qed

lemma roundTime_sub_ms: "d <s Millisecond \<Longrightarrow> roundTime d = d"
  by (simp add: roundTime_def)

lemma roundTime_us:
  assumes "Millisecond \<le>s d" "d <s Second"
  shows "sint (roundTime d) = (sint d + 500) div 1000 * 1000"
proof -
  have r: "1000000 \<le> sint d" "sint d < 1000000000"
    using assms by (simp_all add: word_sle_eq word_sless_alt sint_units)
  have "roundTime d = quo64 (d + 500) Microsecond * Microsecond"
    using assms by (simp add: roundTime_def half_units word_sle_eq word_sless_alt)
  moreover have "sint (quo64 (d + 500) Microsecond * Microsecond)
      = (sint d + sint Microsecond div 2) div sint Microsecond * sint Microsecond"
    using r by (intro round_tier) (simp_all add: sint_units)
  ultimately show ?thesis by (simp add: sint_units)
qed

lemma roundTime_ms:
  assumes "Second \<le>s d" "sint d \<le> 2 ^ 63 - 1 - 500000"
  shows "sint (roundTime d) = (sint d + 500000) div 1000000 * 1000000"
proof -
  have r: "1000000000 \<le> sint d"
    using assms by (simp_all add: word_sle_eq sint_units)
  have "roundTime d = quo64 (d + 500000) Millisecond * Millisecond"
    using assms by (simp add: roundTime_def half_units word_sle_eq word_sless_alt sint_units)
  moreover have "sint (quo64 (d + 500000) Millisecond * Millisecond)
      = (sint d + sint Millisecond div 2) div sint Millisecond * sint Millisecond"
    using r assms(2) by (intro round_tier) (simp_all add: sint_units)
  ultimately show ?thesis by (simp add: sint_units)
qed

text \<open>
  Claim C9, as amended. \<^verbatim>\<open>roundTime d = d\<close> for every duration below one millisecond
  (negative ones included); for \<open>d\<close> in [1ms, 1s) the result is \<open>d\<close> plus half a
  microsecond, truncated to a whole microsecond, which is \<open>d\<close> rounded to the nearest
  microsecond, half away from zero; for \<open>d\<close> of one second or more the same holds with
  the millisecond as unit, provided that \<open>d + 500000\<close> still fits an \<^verbatim>\<open>int64\<close>, that is
  \<open>d \<le> 2^63 - 1 - 500000\<close> nanoseconds.
\<close>

theorem roundTime_tiers:
  "(d <s Millisecond \<longrightarrow> roundTime d = d) \<and>
   (Millisecond \<le>s d \<and> d <s Second \<longrightarrow>
      sint (roundTime d) = (sint d + 500) div 1000 * 1000 \<and>
      rounds_half_away 1000 (sint d) (sint (roundTime d))) \<and>
   (Second \<le>s d \<and> sint d \<le> 2 ^ 63 - 1 - 500000 \<longrightarrow>
      sint (roundTime d) = (sint d + 500000) div 1000000 * 1000000 \<and>
      rounds_half_away 1000000 (sint d) (sint (roundTime d)))"
proof (intro conjI impI)
  assume "d <s Millisecond"
  then show "roundTime d = d" by (rule roundTime_sub_ms)
next
  assume a: "Millisecond \<le>s d \<and> d <s Second"
  then show e: "sint (roundTime d) = (sint d + 500) div 1000 * 1000"
    by (simp add: roundTime_us)
  have "0 \<le> sint d" using a by (simp add: word_sle_eq sint_units)
  then show "rounds_half_away 1000 (sint d) (sint (roundTime d))"
    using half_away_int [of "sint d" 1000] e by simp
next
  assume a: "Second \<le>s d \<and> sint d \<le> 2 ^ 63 - 1 - 500000"
  then show e: "sint (roundTime d) = (sint d + 500000) div 1000000 * 1000000"
    by (simp add: roundTime_ms)
  have "0 \<le> sint d" using a by (simp add: word_sle_eq sint_units)
  then show "rounds_half_away 1000000 (sint d) (sint (roundTime d))"
    using half_away_int [of "sint d" 1000000] e by simp
qed

text \<open>
  The three tiers at 500ns, at 1,500,400ns (the specification's example) and at
  1.0005s, a tie, which goes up.
\<close>

theorem roundTime_tiers_witness:
  "roundTime 500 = 500 \<and>
   sint (roundTime 1500400) = 1500000 \<and> rounds_half_away 1000 1500400 (sint (roundTime 1500400)) \<and>
   sint (roundTime 1000500000) = 1001000000 \<and>
   rounds_half_away 1000000 1000500000 (sint (roundTime 1000500000))"
  using roundTime_tiers [of 500] roundTime_tiers [of 1500400] roundTime_tiers [of 1000500000]
  by (auto simp: word_sle_eq word_sless_alt sint_units)

text \<open>
  Claim C9 as stated fails at the top of the \<^verbatim>\<open>int64\<close> range: for the largest duration,
  \<^verbatim>\<open>t + time.Millisecond/2\<close> wraps around and the result is negative.
\<close>

theorem roundTime_overflow_counterexample:
  "\<not> (\<forall>d. Second \<le>s d \<longrightarrow> rounds_half_away 1000000 (sint d) (sint (roundTime d)))"
proof
  assume "\<forall>d. Second \<le>s d \<longrightarrow> rounds_half_away 1000000 (sint d) (sint (roundTime d))"
  then have "Second \<le>s 9223372036854775807 \<longrightarrow>
      rounds_half_away 1000000 (sint (9223372036854775807 :: Duration))
        (sint (roundTime 9223372036854775807))"
    by (rule spec)
  moreover have "sint (roundTime 9223372036854775807) = - 9223372036854000000"
    by (simp add: roundTime_def quo64_def sint_units half_units word_sless_alt
        signed_divide_int_def Millisecond_def Microsecond_def Nanosecond_def)
  ultimately show False
    by (simp add: word_sle_eq sint_units rounds_half_away_def)
qed

section \<open>Formatting\<close>

text \<open>
  What \<^verbatim>\<open>fmt.Sprintf\<close> does with the verbs of \<^verbatim>\<open>pullRepo\<close>: \<^verbatim>\<open>%d\<close> on an \<^verbatim>\<open>int\<close> is
  \<open>fmt_int\<close>, and \<^verbatim>\<open>%s\<close> on a \<^verbatim>\<open>time.Duration\<close> is its \<^verbatim>\<open>String\<close> method, modelled
  after the standard library: \<^verbatim>\<open>fmtInt\<close> and \<^verbatim>\<open>fmtFrac\<close> fill a buffer from its end,
  and the buffer is here the text written so far.
\<close>

definition digit_char :: "nat \<Rightarrow> char" where
  "digit_char d = char_of (48 + d)"

function fmtInt :: "string \<Rightarrow> nat \<Rightarrow> string" where
  "fmtInt buf v =
     (if v = 0 then CHR ''0'' # buf
      else if v < 10 then digit_char v # buf
      else fmtInt (digit_char (v mod 10) # buf) (v div 10))"
  by pat_completeness auto
termination
  by (relation "measure (\<lambda>(buf, v). v)") auto

fun fmtFrac_loop :: "nat \<Rightarrow> string \<Rightarrow> nat \<Rightarrow> bool \<Rightarrow> string \<times> nat \<times> bool" where
  "fmtFrac_loop 0 buf v print = (buf, v, print)"
| "fmtFrac_loop (Suc i) buf v print =
     (let digit = v mod 10; print = (print \<or> digit \<noteq> 0)
      in fmtFrac_loop i (if print then digit_char digit # buf else buf) (v div 10) print)"

definition fmtFrac :: "string \<Rightarrow> nat \<Rightarrow> nat \<Rightarrow> string \<times> nat" where
  "fmtFrac buf v prec =
     (case fmtFrac_loop prec buf v False of
        (buf, v, print) \<Rightarrow> (if print then CHR ''.'' # buf else buf, v))"

definition fmt_int :: "int \<Rightarrow> string" where
  "fmt_int i = (if i < 0 then CHR ''-'' # fmtInt [] (nat (- i)) else fmtInt [] (nat i))"

definition Duration_String :: "Duration \<Rightarrow> string" where
  "Duration_String d =
     (let neg = d <s 0;
          u = unat (if neg then - d else d);
          buf =
            (if u < 1000000000 then
               (if u = 0 then ''0s''
                else
                  let (prec, unit) =
                        (if u < 1000 then (0, ''ns'')
                         else if u < 1000000 then (3, [CHR 0xC2, CHR 0xB5, CHR ''s''])
                         else (6, ''ms''));
                      (buf, u) = fmtFrac unit u prec
                  in fmtInt buf u)
             else
               let (buf, u) = fmtFrac ''s'' u 9;
                   buf = fmtInt buf (u mod 60);
                   u = u div 60
               in if u > 0 then
                    let buf = fmtInt (CHR ''m'' # buf) (u mod 60);
                        u = u div 60
                    in if u > 0 then fmtInt (CHR ''h'' # buf) u else buf
                  else buf)
      in if neg then CHR ''-'' # buf else buf)"

section \<open>pullRepo\<close>

text \<open>
  The outcome of \<^verbatim>\<open>c.CombinedOutput()\<close> is the captured bytes together with an optional
  error. An \<^verbatim>\<open>*exec.ExitError\<close> carries its message and, when \<^verbatim>\<open>Sys()\<close> is a
  \<^verbatim>\<open>syscall.WaitStatus\<close>, that status; \<^verbatim>\<open>ExitStatus()\<close> is the exit code of a process
  that exited and -1 otherwise (a process killed by a signal). Any other error (the
  command was not found, could not be started) has only its message.
\<close>

datatype WaitStatus = Exited int | NotExited

fun ExitStatus :: "WaitStatus \<Rightarrow> int" where
  "ExitStatus (Exited code) = code"
| "ExitStatus NotExited = - 1"

datatype error = ExitError string "WaitStatus option" | OtherError string

fun Error :: "error \<Rightarrow> string" where
  "Error (ExitError msg sys) = msg"
| "Error (OtherError msg) = msg"

fun Join :: "string list \<Rightarrow> string \<Rightarrow> string" where
  "Join [] sep = []"
| "Join [a] sep = a"
| "Join (a # b # rest) sep = a @ sep @ Join (b # rest) sep"

definition cmd :: "string list" where
  "cmd = [''git'', ''pull'', ''--prune'', ''--quiet'']"

text \<open>\<^verbatim>\<open>fmt.Sprintf("$ %s  (exit:%d in %s)\n%s", cmds, exit, d, out)\<close>.\<close>

definition Sprintf_result :: "string \<Rightarrow> int \<Rightarrow> Duration \<Rightarrow> bytes \<Rightarrow> string" where
  "Sprintf_result cmds exit d out =
     ''$ '' @ cmds @ ''  (exit:'' @ fmt_int exit @ '' in '' @ Duration_String d
       @ '')\<newline>'' @ string_of out"

text \<open>
  \<^verbatim>\<open>func pullRepo() (string, bool)\<close>, lines 67-88, as a function of what the subprocess
  gave (\<^verbatim>\<open>out, err := c.CombinedOutput()\<close>) and of the time measured around it
  (\<^verbatim>\<open>duration := time.Since(start)\<close>). The function has no panicking operation: the
  only dereference, \<^verbatim>\<open>err.Error()\<close>, is under \<^verbatim>\<open>err != nil\<close>, and both type assertions
  are of the two-result form.
\<close>

definition pullRepo :: "bytes \<times> error option \<Rightarrow> Duration \<Rightarrow> string \<times> bool" where
  "pullRepo run duration =
     (let cmds = Join cmd '' '';
          (out, err) = run;
          exit = 0;
          (exit, out) =
            (case err of
               None \<Rightarrow> (exit, out)
             | Some e \<Rightarrow>
                 let exit = - 1;
                     out = (if length out = 0
                            then bytes_of (''<failure>\<newline>'' @ Error e @ ''\<newline>'')
                            else out);
                     exit = (case e of
                               ExitError msg (Some status) \<Rightarrow> ExitStatus status
                             | _ \<Rightarrow> exit)
                 in (exit, out))
      in (Sprintf_result cmds exit (roundTime duration) (normalizeUTF8 out), err = None))"

text \<open>
  The claim's words for what a failed run reports: the real exit code when there is one,
  the sentinel -1 otherwise; and the placeholder that stands in for an empty output.
\<close>

definition reported_exit :: "error \<Rightarrow> int" where
  "reported_exit e = (case e of ExitError msg (Some (Exited code)) \<Rightarrow> code | _ \<Rightarrow> - 1)"

definition placeholder :: "error \<Rightarrow> bytes" where
  "placeholder e = bytes_of (''<failure>\<newline>'' @ Error e @ ''\<newline>'')"

text \<open>
  Claim C6. \<^verbatim>\<open>pullRepo\<close> is a total function of the subprocess outcome (it has no
  failing branch): on success it returns the text formatted with exit status 0 and the
  flag \<open>True\<close>; on failure it returns the flag \<open>False\<close> and the text formatted with the
  process's exit code when the error is an \<^verbatim>\<open>ExitError\<close> of a process that exited, and
  with -1 otherwise; an empty output of a failed run is replaced by the placeholder that
  embeds the error's message; the output is passed through \<^verbatim>\<open>normalizeUTF8\<close>, and the
  duration through \<^verbatim>\<open>roundTime\<close>.
\<close>

theorem pullRepo_result:
  "pullRepo (out, None) d =
     (Sprintf_result ''git pull --prune --quiet'' 0 (roundTime d) (normalizeUTF8 out), True) \<and>
   pullRepo (out, Some e) d =
     (Sprintf_result ''git pull --prune --quiet'' (reported_exit e) (roundTime d)
        (normalizeUTF8 (if out = [] then placeholder e else out)), False) \<and>
   reported_exit (ExitError msg (Some (Exited code))) = code \<and>
   reported_exit (ExitError msg (Some NotExited)) = - 1 \<and>
   reported_exit (ExitError msg None) = - 1 \<and>
   reported_exit (OtherError msg) = - 1"
proof -
  have j: "Join cmd '' '' = ''git pull --prune --quiet''"
    by (simp add: cmd_def)
  have ok: "pullRepo (out, None) d =
     (Sprintf_result ''git pull --prune --quiet'' 0 (roundTime d) (normalizeUTF8 out), True)"
    by (simp add: pullRepo_def j)
  have ex: "(case e of ExitError msg (Some status) \<Rightarrow> ExitStatus status | _ \<Rightarrow> - 1)
      = reported_exit e"
    by (simp add: reported_exit_def split: error.splits option.splits WaitStatus.splits)
  have failed: "pullRepo (out, Some e) d =
     (Sprintf_result ''git pull --prune --quiet'' (reported_exit e) (roundTime d)
        (normalizeUTF8 (if out = [] then placeholder e else out)), False)"
    unfolding pullRepo_def j Let_def prod.case option.case ex placeholder_def
    by simp
  show ?thesis
    using ok failed by (simp add: reported_exit_def)
qed

section \<open>server.ServeHTTP\<close>

text \<open>
  The request, as far as the handler reads it. The three functions of the \<^verbatim>\<open>go-github\<close>
  library that the handler calls are parameters of the model: \<^verbatim>\<open>ValidatePayload\<close> checks
  the signature header against the secret and returns the payload or an error,
  \<^verbatim>\<open>WebHookType\<close> reads the event-type header, \<^verbatim>\<open>ParseWebHook\<close> parses the payload as
  an event of that type or fails. The library's \<^verbatim>\<open>PushEvent\<close> holds pointers, any of
  which may be nil after parsing: \<^verbatim>\<open>Ref\<close>, \<^verbatim>\<open>Repo\<close> and its \<^verbatim>\<open>FullName\<close>, \<^verbatim>\<open>HeadCommit\<close>
  and its \<^verbatim>\<open>ID\<close>. Every other event keeps only the name of its Go type.
\<close>

record Request =
  Method :: string
  RemoteAddr :: string
  Path :: string
  Header :: "(string \<times> string) list"
  Body :: bytes

datatype PushEventRepository = PushEventRepository (FullName: "string option")

datatype PushEventCommit = PushEventCommit (ID: "string option")

datatype Event =
    PushEvent "string option" "PushEventRepository option" "PushEventCommit option"
  | OtherEvent string

record github =
  ValidatePayload :: "Request \<Rightarrow> bytes \<Rightarrow> string + bytes"
  WebHookType :: "Request \<Rightarrow> string"
  ParseWebHook :: "string \<Rightarrow> bytes \<Rightarrow> string + Event"

text \<open>
  \<^verbatim>\<open>type server struct\<close>, lines 91-95: the secret, the mutex (\<open>True\<close> when locked) and
  the counter of the wait group.
\<close>

record server =
  WebHookSecret :: string
  mu :: bool
  wg :: nat

text \<open>
  What a goroutine does, in program order. \<^verbatim>\<open>log.Printf\<close> is kept as its format and
  arguments. \<open>CmdStart\<close> and \<open>CmdDone\<close> are the two ends of \<^verbatim>\<open>c.CombinedOutput()\<close>: the
  subprocess is started, and the call returns once it has exited. \<open>Panic\<close> is a nil
  pointer dereference, which ends the handler (\<^verbatim>\<open>net/http\<close> recovers it and drops the
  connection). The operations of \<^verbatim>\<open>sync.Mutex\<close> and \<^verbatim>\<open>sync.WaitGroup\<close> are part of the
  vocabulary, so that it can be said which of them a function performs.
\<close>

datatype effect =
    Log string "string list"
  | BodyClose
  | http_NotFound
  | http_Error string nat
  | WriteHeader nat
  | WriteString string
  | CmdStart "string list"
  | CmdDone
  | Panic
  | Lock
  | Unlock
  | WgAdd
  | WgDone
  | WgWait
  | GoListenAndServe string

text \<open>
  The effects of a call of \<^verbatim>\<open>pullRepo()\<close>: the log line of the command, then the run
  of the subprocess from start to exit. The handler drops the returned pair.
\<close>

definition pullRepo_effects :: "effect list" where
  "pullRepo_effects = [Log ''- %s'' [Join cmd '' ''], CmdStart cmd, CmdDone]"

text \<open>
  The type switch of lines 139-149. Evaluating the arguments of \<^verbatim>\<open>log.Printf\<close>
  dereferences \<^verbatim>\<open>event.Repo\<close>, \<^verbatim>\<open>event.Repo.FullName\<close>, \<^verbatim>\<open>event.Ref\<close> and, in the second
  branch, \<^verbatim>\<open>event.HeadCommit.ID\<close>; a nil pointer among them panics before anything is
  logged.
\<close>

fun process_event :: "Event \<Rightarrow> effect list" where
  "process_event (PushEvent ref repo None) =
     (case (Option.bind repo FullName, ref) of
        (Some name, Some rf) \<Rightarrow> [Log ''- Push %s %s <deleted>'' [name, rf]]
      | _ \<Rightarrow> [Panic])"
| "process_event (PushEvent ref repo (Some commit)) =
     (case (Option.bind repo FullName, ref, ID commit) of
        (Some name, Some rf, Some cid) \<Rightarrow>
          Log ''- Push %s %s %s'' [name, rf, cid] # pullRepo_effects
      | _ \<Rightarrow> [Panic])"
| "process_event (OtherEvent name) = [Log ''- ignoring hook type %s'' [name]]"

definition panicked :: "effect list \<Rightarrow> bool" where
  "panicked tr \<longleftrightarrow> tr \<noteq> [] \<and> last tr = Panic"

text \<open>
  \<^verbatim>\<open>func (s *server) ServeHTTP(w http.ResponseWriter, r *http.Request)\<close>, lines
  102-152, as the list of its effects. \<open>uptime\<close> is what \<^verbatim>\<open>time.Since(start)\<close> gives
  when the handler asks. The deferred \<^verbatim>\<open>r.Body.Close()\<close> runs last on every path, a
  panic included.
\<close>

definition ServeHTTP :: "github \<Rightarrow> server \<Rightarrow> Duration \<Rightarrow> Request \<Rightarrow> effect list" where
  "ServeHTTP gh s uptime r =
     Log ''%-4s %-21s %s'' [Method r, RemoteAddr r, Path r] #
     (if Path r \<noteq> [] \<and> Path r \<noteq> ''/'' then
        [Log ''- Unexpected path %s'' [Path r], http_NotFound]
      else if Method r = ''HEAD'' then [WriteHeader 200]
      else if Method r = ''GET'' then [WriteString (Duration_String uptime)]
      else if Method r \<noteq> ''POST'' then
        [http_Error ''Invalid method'' 405, Log ''- invalid method %s'' [Method r]]
      else
        (case ValidatePayload gh r (bytes_of (WebHookSecret s)) of
           Inl err \<Rightarrow> [http_Error ''Invalid secret'' 401, Log ''- invalid secret'' []]
         | Inr payload \<Rightarrow>
             let t = WebHookType gh r in
             if t \<noteq> ''ping'' then
               (case ParseWebHook gh t payload of
                  Inl err \<Rightarrow> [http_Error ''Invalid payload'' 400, Log ''- invalid payload'' []]
                | Inr event \<Rightarrow>
                    let tr = process_event event in
                    if panicked tr then tr else tr @ [WriteString ''{}''])
             else [WriteString ''{}'']))
     @ [BodyClose]"

subsection \<open>The response and the executions of a run of the handler\<close>

text \<open>
  The \<^verbatim>\<open>http.ResponseWriter\<close>: no status is set until the first \<^verbatim>\<open>WriteHeader\<close> or the
  first write, which implies status 200. \<^verbatim>\<open>http.Error\<close> writes the status and the
  message followed by a newline, and \<^verbatim>\<open>http.NotFound\<close> is
  \<^verbatim>\<open>http.Error(w, "404 page not found", 404)\<close>.
\<close>

type_synonym reply = "(nat \<times> string) option"

fun write_header :: "nat \<Rightarrow> reply \<Rightarrow> reply" where
  "write_header code None = Some (code, [])"
| "write_header code (Some r) = Some r"

fun write_body :: "string \<Rightarrow> reply \<Rightarrow> reply" where
  "write_body s None = Some (200, s)"
| "write_body s (Some (code, b)) = Some (code, b @ s)"

fun respond :: "reply \<Rightarrow> effect \<Rightarrow> reply" where
  "respond w (WriteHeader code) = write_header code w"
| "respond w (WriteString s) = write_body s w"
| "respond w (http_Error msg code) = write_body (msg @ ''\<newline>'') (write_header code w)"
| "respond w http_NotFound = write_body ''404 page not found\<newline>'' (write_header 404 w)"
| "respond w _ = w"

text \<open>The reply the client gets: none when the handler panicked.\<close>

definition response :: "effect list \<Rightarrow> reply" where
  "response tr = (if Panic \<in> set tr then None else foldl respond None tr)"

text \<open>The number of subprocess runs a list of effects starts.\<close>

definition executions :: "effect list \<Rightarrow> nat" where
  "executions tr = length (filter (\<lambda>e. e = CmdStart cmd) tr)"

subsection \<open>The specification's classification of a request\<close>

text \<open>
  The specification names the outcome of the handler's checks; the rules below follow
  its section 4.4 in order. The handler itself has no such value. For rule 1 the root
  path is what line 106 takes for it: the empty path or \<^verbatim>\<open>/\<close>.
\<close>

datatype classification =
    NotFound | Alive | StatusQuery | MethodRejected | Unauthorized
  | Ping | BadPayload | PushTrigger | Ignored

definition root_path :: "string \<Rightarrow> bool" where
  "root_path p \<longleftrightarrow> p = [] \<or> p = ''/''"

fun classify_event :: "Event \<Rightarrow> classification" where
  "classify_event (PushEvent ref repo (Some commit)) = PushTrigger"
| "classify_event (PushEvent ref repo None) = Ignored"
| "classify_event (OtherEvent name) = Ignored"

definition classify :: "github \<Rightarrow> server \<Rightarrow> Request \<Rightarrow> classification" where
  "classify gh s r =
     (if \<not> root_path (Path r) then NotFound
      else if Method r = ''HEAD'' then Alive
      else if Method r = ''GET'' then StatusQuery
      else if Method r \<noteq> ''POST'' then MethodRejected
      else
        (case ValidatePayload gh r (bytes_of (WebHookSecret s)) of
           Inl err \<Rightarrow> Unauthorized
         | Inr payload \<Rightarrow>
             if WebHookType gh r = ''ping'' then Ping
             else
               (case ParseWebHook gh (WebHookType gh r) payload of
                  Inl err \<Rightarrow> BadPayload
                | Inr event \<Rightarrow> classify_event event)))"

text \<open>
  A push event is complete when it carries what the handler logs: the repository's full
  name, the ref and, with a head commit, the commit's identifier. The specification's
  push event always does.
\<close>

fun complete :: "Event \<Rightarrow> bool" where
  "complete (PushEvent ref repo head) \<longleftrightarrow>
     Option.bind repo FullName \<noteq> None \<and> ref \<noteq> None \<and>
     (case head of None \<Rightarrow> True | Some commit \<Rightarrow> ID commit \<noteq> None)"
| "complete (OtherEvent name) \<longleftrightarrow> True"

text \<open>The event a signed delivery parses to, if the handler gets that far.\<close>

definition parsed :: "github \<Rightarrow> server \<Rightarrow> Request \<Rightarrow> Event option" where
  "parsed gh s r =
     (case ValidatePayload gh r (bytes_of (WebHookSecret s)) of
        Inl err \<Rightarrow> None
      | Inr payload \<Rightarrow>
          (case ParseWebHook gh (WebHookType gh r) payload of
             Inl err \<Rightarrow> None
           | Inr event \<Rightarrow> Some event))"

subsection \<open>Example requests\<close>

text \<open>
  A library behaviour under which every request is a correctly signed delivery of type
  \<open>t\<close> that parses to the event \<open>ev\<close>, a server, and requests to it.
\<close>

definition delivers :: "string \<Rightarrow> Event \<Rightarrow> github" where
  "delivers t ev =
     \<lparr>ValidatePayload = (\<lambda>r secret. Inr (Body r)),
      WebHookType = (\<lambda>r. t),
      ParseWebHook = (\<lambda>t payload. Inr ev)\<rparr>"

definition srv0 :: server where
  "srv0 = \<lparr>WebHookSecret = ''secret'', mu = False, wg = 0\<rparr>"

definition request :: "string \<Rightarrow> string \<Rightarrow> Request" where
  "request m p = \<lparr>Method = m, RemoteAddr = ''192.0.2.1:4711'', Path = p, Header = [], Body = []\<rparr>"

definition push_commit :: Event where
  "push_commit =
     PushEvent (Some ''refs/heads/master'') (Some (PushEventRepository (Some ''maruel/pullhook'')))
       (Some (PushEventCommit (Some ''0123abc'')))"

definition push_deleted :: Event where
  "push_deleted =
     PushEvent (Some ''refs/heads/topic'') (Some (PushEventRepository (Some ''maruel/pullhook'')))
       None"

definition push_no_repo :: Event where
  "push_no_repo =
     PushEvent (Some ''refs/heads/master'') None (Some (PushEventCommit (Some ''0123abc'')))"

lemma executions_simps:
  "executions [] = 0"
  "executions (e # tr) = (if e = CmdStart cmd then 1 else 0) + executions tr"
  "executions (tr @ tr') = executions tr + executions tr'"
  by (simp_all add: executions_def)

lemma executions_pullRepo: "executions pullRepo_effects = 1"
  by (simp add: executions_def pullRepo_effects_def)

text \<open>The handler's effects on a signed delivery that is not a ping and parses.\<close>

lemma ServeHTTP_event:
  assumes "root_path (Path r)" and "Method r = ''POST''"
    and "ValidatePayload gh r (bytes_of (WebHookSecret s)) = Inr payload"
    and "WebHookType gh r \<noteq> ''ping''"
    and "ParseWebHook gh (WebHookType gh r) payload = Inr event"
  shows "ServeHTTP gh s uptime r =
     Log ''%-4s %-21s %s'' [Method r, RemoteAddr r, Path r] #
     (if panicked (process_event event) then process_event event
      else process_event event @ [WriteString ''{}'']) @ [BodyClose]"
  using assms by (auto simp: ServeHTTP_def root_path_def Let_def)

lemma complete_not_panicked: "complete event \<Longrightarrow> \<not> panicked (process_event event)"
  by (cases event rule: process_event.cases)
    (auto simp: panicked_def pullRepo_effects_def split: option.splits)

lemma complete_no_Panic: "complete event \<Longrightarrow> Panic \<notin> set (process_event event)"
  by (cases event rule: process_event.cases)
    (auto simp: pullRepo_effects_def split: option.splits)

lemma process_event_no_reply: "foldl respond w (process_event event) = w"
  by (cases event rule: process_event.cases)
    (auto simp: pullRepo_effects_def split: option.splits)

lemma complete_executions:
  "complete event \<Longrightarrow>
     executions (process_event event) = (if classify_event event = PushTrigger then 1 else 0)"
  by (cases event rule: process_event.cases)
    (auto simp: executions_simps executions_pullRepo split: option.splits)

lemma example_simps:
  "Method (request m p) = m" "Path (request m p) = p" "Body (request m p) = []"
  "RemoteAddr (request m p) = ''192.0.2.1:4711''"
  "ValidatePayload (delivers t ev) = (\<lambda>r secret. Inr (Body r))"
  "WebHookType (delivers t ev) = (\<lambda>r. t)"
  "ParseWebHook (delivers t ev) = (\<lambda>t payload. Inr ev)"
  by (simp_all add: request_def delivers_def)

subsection \<open>Claim C3: the executions a push delivery causes\<close>

text \<open>
  Claim C3, as amended. For every POST request to the root path with a correct signature
  and event type \<^verbatim>\<open>push\<close> whose body parses as a push event that carries the
  repository's full name and the ref (and the commit's identifier, when it has a head
  commit): the handler runs the subprocess exactly once if the event has a head commit,
  and not at all if the head commit is absent.
\<close>

theorem push_executions:
  assumes "root_path (Path r)" and "Method r = ''POST''"
    and "ValidatePayload gh r (bytes_of (WebHookSecret s)) = Inr payload"
    and "WebHookType gh r = ''push''"
    and "ParseWebHook gh ''push'' payload = Inr (PushEvent ref repo head)"
    and "complete (PushEvent ref repo head)"
  shows "executions (ServeHTTP gh s uptime r) = (if head = None then 0 else 1)"
proof -
  let ?ev = "PushEvent ref repo head"
  have "ServeHTTP gh s uptime r =
     Log ''%-4s %-21s %s'' [Method r, RemoteAddr r, Path r] #
     (if panicked (process_event ?ev) then process_event ?ev
      else process_event ?ev @ [WriteString ''{}'']) @ [BodyClose]"
    using assms(1-5) by (intro ServeHTTP_event) simp_all
  then have "executions (ServeHTTP gh s uptime r) = executions (process_event ?ev)"
    using complete_not_panicked [OF assms(6)] by (simp add: executions_simps)
  also have "\<dots> = (if classify_event ?ev = PushTrigger then 1 else 0)"
    using assms(6) by (rule complete_executions)
  also have "\<dots> = (if head = None then 0 else 1)"
    by (cases head) simp_all
  finally show ?thesis .
qed

text \<open>A push with a head commit runs the subprocess once, the push of a deletion never.\<close>

theorem push_executions_witness:
  "executions (ServeHTTP (delivers ''push'' push_commit) srv0 0 (request ''POST'' ''/'')) = 1 \<and>
   executions (ServeHTTP (delivers ''push'' push_deleted) srv0 0 (request ''POST'' ''/'')) = 0"
proof -
  have a: "executions (ServeHTTP (delivers ''push'' push_commit) srv0 0 (request ''POST'' ''/''))
      = (if Some (PushEventCommit (Some ''0123abc'')) = None then 0 else 1)"
    by (rule push_executions [where payload = "[]" and ref = "Some ''refs/heads/master''"
          and repo = "Some (PushEventRepository (Some ''maruel/pullhook''))"])
      (simp_all add: example_simps root_path_def push_commit_def)
  have b: "executions (ServeHTTP (delivers ''push'' push_deleted) srv0 0 (request ''POST'' ''/''))
      = (if (None :: PushEventCommit option) = None then 0 else 1)"
    by (rule push_executions [where payload = "[]" and ref = "Some ''refs/heads/topic''"
          and repo = "Some (PushEventRepository (Some ''maruel/pullhook''))"])
      (simp_all add: example_simps root_path_def push_deleted_def)
  show ?thesis using a b by simp
qed

text \<open>
  Claim C3 as stated fails on two signed POST requests whose body parses as a push event
  with a head commit: one whose event has no repository (the handler panics on
  \<^verbatim>\<open>*event.Repo.FullName\<close> before it calls \<^verbatim>\<open>pullRepo\<close>), and one sent to \<^verbatim>\<open>/foo\<close>
  (answered 404 before the body is read). Neither runs the subprocess.
\<close>

theorem push_executions_counterexample:
  "Method (request ''POST'' ''/'') = ''POST'' \<and>
   parsed (delivers ''push'' push_no_repo) srv0 (request ''POST'' ''/'')
     = Some (PushEvent (Some ''refs/heads/master'') None (Some (PushEventCommit (Some ''0123abc'')))) \<and>
   ServeHTTP (delivers ''push'' push_no_repo) srv0 0 (request ''POST'' ''/'')
     = [Log ''%-4s %-21s %s'' [''POST'', ''192.0.2.1:4711'', ''/''], Panic, BodyClose] \<and>
   executions (ServeHTTP (delivers ''push'' push_no_repo) srv0 0 (request ''POST'' ''/'')) = 0 \<and>
   Method (request ''POST'' ''/foo'') = ''POST'' \<and>
   parsed (delivers ''push'' push_commit) srv0 (request ''POST'' ''/foo'') = Some push_commit \<and>
   classify_event push_commit = PushTrigger \<and>
   executions (ServeHTTP (delivers ''push'' push_commit) srv0 0 (request ''POST'' ''/foo'')) = 0"
  by (simp add: example_simps parsed_def ServeHTTP_def push_no_repo_def push_commit_def
      panicked_def executions_simps)

subsection \<open>Claim C8: a path that is not the root\<close>

text \<open>
  Claim C8. Every request whose path is not the root path (for the handler: neither the
  empty path nor \<^verbatim>\<open>/\<close>) is classified NotFound and answered with 404, whatever its
  method, headers and body: the handler logs the path, calls \<^verbatim>\<open>http.NotFound\<close> and
  returns, so that the signature is not checked, the body is not parsed and no
  subprocess is run.
\<close>

theorem not_root_is_404:
  assumes "\<not> root_path (Path r)"
  shows "classify gh s r = NotFound \<and>
    ServeHTTP gh s uptime r =
      [Log ''%-4s %-21s %s'' [Method r, RemoteAddr r, Path r],
       Log ''- Unexpected path %s'' [Path r], http_NotFound, BodyClose] \<and>
    response (ServeHTTP gh s uptime r) = Some (404, ''404 page not found\<newline>'') \<and>
    executions (ServeHTTP gh s uptime r) = 0"
proof -
  have tr: "ServeHTTP gh s uptime r =
      [Log ''%-4s %-21s %s'' [Method r, RemoteAddr r, Path r],
       Log ''- Unexpected path %s'' [Path r], http_NotFound, BodyClose]"
    using assms by (simp add: ServeHTTP_def root_path_def)
  have "classify gh s r = NotFound"
    using assms by (simp add: classify_def)
  moreover have "response (ServeHTTP gh s uptime r) = Some (404, ''404 page not found\<newline>'')"
    unfolding tr by (simp add: response_def)
  moreover have "executions (ServeHTTP gh s uptime r) = 0"
    unfolding tr by (simp add: executions_simps)
  ultimately show ?thesis using tr by simp
qed

text \<open>A signed push with a head commit, sent to \<^verbatim>\<open>/foo\<close>.\<close>

theorem not_root_is_404_witness:
  "\<not> root_path ''/foo'' \<and>
   classify (delivers ''push'' push_commit) srv0 (request ''POST'' ''/foo'') = NotFound \<and>
   response (ServeHTTP (delivers ''push'' push_commit) srv0 0 (request ''POST'' ''/foo''))
     = Some (404, ''404 page not found\<newline>'') \<and>
   executions (ServeHTTP (delivers ''push'' push_commit) srv0 0 (request ''POST'' ''/foo'')) = 0"
proof -
  have h: "\<not> root_path (Path (request ''POST'' ''/foo''))"
    by (simp add: example_simps root_path_def)
  show ?thesis
    using h not_root_is_404 [OF h, of "delivers ''push'' push_commit" srv0 0]
    by (auto simp: example_simps)
qed

subsection \<open>Claim C5: the replies with status 200\<close>

lemma classify_event_neq:
  "classify_event event \<noteq> Alive" "classify_event event \<noteq> StatusQuery"
  "classify_event event \<noteq> Ping" "classify_event event \<noteq> NotFound"
  "classify_event event \<noteq> MethodRejected" "classify_event event \<noteq> Unauthorized"
  "classify_event event \<noteq> BadPayload"
  by (cases event rule: classify_event.cases; simp)+

text \<open>
  Claim C5, as amended. A request classified Ping, PushTrigger or Ignored is answered
  with status 200 and the body \<^verbatim>\<open>{}\<close>, provided that the push event it parses to, if
  any, carries the repository's full name, the ref and the identifier of its head
  commit. A request classified Alive (HEAD) is answered with status 200 and an empty
  body, and one classified StatusQuery (GET) with status 200 and the uptime as text;
  neither body is a JSON object.
\<close>

theorem replies_200:
  "(classify gh s r = Alive \<longrightarrow> response (ServeHTTP gh s uptime r) = Some (200, [])) \<and>
   (classify gh s r = StatusQuery \<longrightarrow>
      response (ServeHTTP gh s uptime r) = Some (200, Duration_String uptime)) \<and>
   (classify gh s r = Ping \<longrightarrow> response (ServeHTTP gh s uptime r) = Some (200, ''{}'')) \<and>
   ((classify gh s r = PushTrigger \<or> classify gh s r = Ignored) \<and>
    (case parsed gh s r of None \<Rightarrow> True | Some event \<Rightarrow> complete event) \<longrightarrow>
      response (ServeHTTP gh s uptime r) = Some (200, ''{}''))"
proof (intro conjI impI)
  assume "classify gh s r = Alive"
  then have "ServeHTTP gh s uptime r =
      [Log ''%-4s %-21s %s'' [Method r, RemoteAddr r, Path r], WriteHeader 200, BodyClose]"
    by (auto simp: classify_def ServeHTTP_def root_path_def classify_event_neq
        split: if_splits sum.splits)
  then show "response (ServeHTTP gh s uptime r) = Some (200, [])"
    by (simp add: response_def)
next
  assume "classify gh s r = StatusQuery"
  then have "ServeHTTP gh s uptime r =
      [Log ''%-4s %-21s %s'' [Method r, RemoteAddr r, Path r],
       WriteString (Duration_String uptime), BodyClose]"
    by (auto simp: classify_def ServeHTTP_def root_path_def classify_event_neq
        split: if_splits sum.splits)
  then show "response (ServeHTTP gh s uptime r) = Some (200, Duration_String uptime)"
    by (simp add: response_def)
next
  assume "classify gh s r = Ping"
  then have "ServeHTTP gh s uptime r =
      [Log ''%-4s %-21s %s'' [Method r, RemoteAddr r, Path r], WriteString ''{}'', BodyClose]"
    by (auto simp: classify_def ServeHTTP_def root_path_def classify_event_neq
        split: if_splits sum.splits)
  then show "response (ServeHTTP gh s uptime r) = Some (200, ''{}'')"
    by (simp add: response_def)
next
  assume a: "(classify gh s r = PushTrigger \<or> classify gh s r = Ignored) \<and>
    (case parsed gh s r of None \<Rightarrow> True | Some event \<Rightarrow> complete event)"
  then obtain payload event where p:
      "root_path (Path r)" "Method r = ''POST''"
      "ValidatePayload gh r (bytes_of (WebHookSecret s)) = Inr payload"
      "WebHookType gh r \<noteq> ''ping''"
      "ParseWebHook gh (WebHookType gh r) payload = Inr event"
    by (auto simp: classify_def split: if_splits sum.splits)
  then have c: "complete event" using a by (simp add: parsed_def)
  have "ServeHTTP gh s uptime r =
     Log ''%-4s %-21s %s'' [Method r, RemoteAddr r, Path r] #
     process_event event @ [WriteString ''{}'', BodyClose]"
    using ServeHTTP_event [OF p] complete_not_panicked [OF c] by simp
  then show "response (ServeHTTP gh s uptime r) = Some (200, ''{}'')"
    using complete_no_Panic [OF c] by (simp add: response_def process_event_no_reply)
qed

text \<open>Evaluating the formatting functions on numerals.\<close>

lemma digit_char_simps:
  "digit_char 0 = CHR ''0''" "digit_char 1 = CHR ''1''" "digit_char 2 = CHR ''2''"
  "digit_char 3 = CHR ''3''" "digit_char 4 = CHR ''4''" "digit_char 5 = CHR ''5''"
  "digit_char 6 = CHR ''6''" "digit_char 7 = CHR ''7''" "digit_char 8 = CHR ''8''"
  "digit_char 9 = CHR ''9''" "digit_char (Suc 0) = CHR ''1''"
  by code_simp+

lemma fmtFrac_loop_step:
  "0 < i \<Longrightarrow> fmtFrac_loop i buf v print =
     (let digit = v mod 10; print = (print \<or> digit \<noteq> 0)
      in fmtFrac_loop (i - 1) (if print then digit_char digit # buf else buf) (v div 10) print)"
  by (cases i) simp_all

lemmas format_simps =
  Duration_String_def fmtFrac_def fmt_int_def digit_char_simps word_sless_alt fmtFrac_loop_step

lemma Duration_String_examples:
  "Duration_String 1500000000 = ''1.5s''"
  "Duration_String 1235000000 = ''1.235s''"
  "Duration_String 5 = ''5ns''"
  "Duration_String 0 = ''0s''"
  by (simp_all add: format_simps)

text \<open>A body has the shape of a JSON object when it opens and closes with a brace.\<close>

definition object_shaped :: "string \<Rightarrow> bool" where
  "object_shaped b \<longleftrightarrow> b \<noteq> [] \<and> hd b = CHR ''{'' \<and> last b = CHR ''}''"

text \<open>
  The four kinds of reply with status 200: to HEAD, to GET after 1.5s of uptime, to a
  ping and to a push with a head commit.
\<close>

theorem replies_200_witness:
  "response (ServeHTTP (delivers ''push'' push_commit) srv0 0 (request ''HEAD'' ''/''))
     = Some (200, []) \<and>
   response (ServeHTTP (delivers ''push'' push_commit) srv0 1500000000 (request ''GET'' ''/''))
     = Some (200, ''1.5s'') \<and>
   response (ServeHTTP (delivers ''ping'' push_commit) srv0 0 (request ''POST'' ''/''))
     = Some (200, ''{}'') \<and>
   response (ServeHTTP (delivers ''push'' push_commit) srv0 0 (request ''POST'' ''/''))
     = Some (200, ''{}'')"
  using replies_200 [of "delivers ''push'' push_commit" srv0 "request ''HEAD'' ''/''" 0]
    replies_200 [of "delivers ''push'' push_commit" srv0 "request ''GET'' ''/''" 1500000000]
    replies_200 [of "delivers ''ping'' push_commit" srv0 "request ''POST'' ''/''" 0]
    replies_200 [of "delivers ''push'' push_commit" srv0 "request ''POST'' ''/''" 0]
  by (simp add: classify_def parsed_def root_path_def example_simps push_commit_def
      Duration_String_examples)

text \<open>
  Claim C5 as stated fails for the two classifications Alive and StatusQuery: the reply
  to HEAD has an empty body and the reply to GET is the uptime as text.
\<close>

theorem replies_200_counterexample:
  "classify (delivers ''push'' push_commit) srv0 (request ''HEAD'' ''/'') = Alive \<and>
   response (ServeHTTP (delivers ''push'' push_commit) srv0 0 (request ''HEAD'' ''/''))
     = Some (200, []) \<and>
   \<not> object_shaped [] \<and>
   classify (delivers ''push'' push_commit) srv0 (request ''GET'' ''/'') = StatusQuery \<and>
   response (ServeHTTP (delivers ''push'' push_commit) srv0 1500000000 (request ''GET'' ''/''))
     = Some (200, ''1.5s'') \<and>
   \<not> object_shaped ''1.5s''"
  by (simp add: classify_def ServeHTTP_def response_def root_path_def example_simps
      Duration_String_examples object_shaped_def)

subsection \<open>Claim C1: the reply and the end of the pull\<close>

text \<open>
  On a push with a head commit the handler calls \<^verbatim>\<open>pullRepo()\<close> itself (line 145, no
  \<^verbatim>\<open>go\<close> statement), and writes the body at line 151, after the call has returned:
  nothing has been sent to the client when the subprocess starts, and the write of
  \<^verbatim>\<open>{}\<close> comes after the subprocess has exited.
\<close>

lemma reply_follows_pull:
  assumes "root_path (Path r)" and "Method r = ''POST''"
    and "ValidatePayload gh r (bytes_of (WebHookSecret s)) = Inr payload"
    and "WebHookType gh r \<noteq> ''ping''"
    and "ParseWebHook gh (WebHookType gh r) payload = Inr (PushEvent ref repo (Some commit))"
    and "complete (PushEvent ref repo (Some commit))"
  shows "\<exists>pre. ServeHTTP gh s uptime r = pre @ [CmdStart cmd, CmdDone, WriteString ''{}'', BodyClose]
    \<and> foldl respond None pre = None"
proof -
  let ?ev = "PushEvent ref repo (Some commit)"
  obtain l where l: "process_event ?ev = [l, Log ''- %s'' [Join cmd '' ''], CmdStart cmd, CmdDone]"
      and ll: "respond None l = None"
    using assms(6) by (auto simp: pullRepo_effects_def split: option.splits)
  have "ServeHTTP gh s uptime r =
     Log ''%-4s %-21s %s'' [Method r, RemoteAddr r, Path r] #
     process_event ?ev @ [WriteString ''{}'', BodyClose]"
    using ServeHTTP_event [OF assms(1-5)] complete_not_panicked [OF assms(6)]
    by (simp del: process_event.simps)
  then have "ServeHTTP gh s uptime r =
     [Log ''%-4s %-21s %s'' [Method r, RemoteAddr r, Path r], l, Log ''- %s'' [Join cmd '' '']]
       @ [CmdStart cmd, CmdDone, WriteString ''{}'', BodyClose]"
    by (simp add: l del: process_event.simps)
  moreover have "foldl respond None
      [Log ''%-4s %-21s %s'' [Method r, RemoteAddr r, Path r], l, Log ''- %s'' [Join cmd '' '']]
      = None"
    by (simp add: ll)
  ultimately show ?thesis by blast
qed

text \<open>
  Claim C1, which the handler does not satisfy. For a signed push with a head commit,
  the effects of the handler are, in order: the two log lines, the log line of
  \<^verbatim>\<open>pullRepo\<close>, the start of \<^verbatim>\<open>git pull\<close>, its exit, and only then the write of the body
  \<^verbatim>\<open>{}\<close>. The handler waits for the synchronization to complete before it replies; it
  does not dispatch it asynchronously.
\<close>

theorem push_reply_after_pull:
  "ServeHTTP (delivers ''push'' push_commit) srv0 0 (request ''POST'' ''/'') =
     [Log ''%-4s %-21s %s'' [''POST'', ''192.0.2.1:4711'', ''/''],
      Log ''- Push %s %s %s'' [''maruel/pullhook'', ''refs/heads/master'', ''0123abc''],
      Log ''- %s'' [''git pull --prune --quiet''],
      CmdStart [''git'', ''pull'', ''--prune'', ''--quiet''],
      CmdDone,
      WriteString ''{}'',
      BodyClose]"
  by (simp add: ServeHTTP_def example_simps push_commit_def pullRepo_effects_def panicked_def
      cmd_def)

section \<open>mainImpl and main\<close>

text \<open>
  What \<^verbatim>\<open>mainImpl\<close> gets from outside: the parsed flags, the results of \<^verbatim>\<open>os.Getwd\<close>,
  \<^verbatim>\<open>osext.Executable\<close> and \<^verbatim>\<open>net.Listen\<close> (an error or a value), the errors of
  \<^verbatim>\<open>fsnotify.NewWatcher\<close> and \<^verbatim>\<open>w.Add\<close> if any, and what the \<^verbatim>\<open>select\<close> of lines
  192-196 receives: an event on the watched executable, or an error of the watcher. An
  error is kept as its message.
\<close>

datatype watch_event = Event | WatchError string

record environment =
  port :: int
  secret :: string
  Getwd :: "string + string"
  Executable :: "string + string"
  Listen :: "string + string"
  NewWatcher :: "string option"
  Add :: "string option"
  received :: watch_event

text \<open>A function either returns or, at \<^verbatim>\<open>select {}\<close>, blocks for ever.\<close>

datatype 'a outcome = Returns 'a | Blocks

text \<open>
  \<^verbatim>\<open>func mainImpl() error\<close>, lines 154-204: its effects and the error it returns
  (\<open>None\<close> for nil). \<^verbatim>\<open>s.wg.Wait()\<close> returns at once, the counter of the fresh wait
  group being zero.
\<close>

definition mainImpl :: "environment \<Rightarrow> effect list \<times> string option outcome" where
  "mainImpl env =
     (case Getwd env of
        Inl err \<Rightarrow> ([], Returns (Some err))
      | Inr wd \<Rightarrow>
          (case Executable env of
             Inl err \<Rightarrow> ([], Returns (Some err))
           | Inr thisFile \<Rightarrow>
               let tr = [Log ''Running in: %s'' [wd], Log ''Executable: %s'' [thisFile]] in
               (case Listen env of
                  Inl err \<Rightarrow> (tr, Returns (Some err))
                | Inr a \<Rightarrow>
                    let tr = tr @ [Log ''Listening on: %s'' [a], GoListenAndServe a];
                        err = (case NewWatcher env of Some e \<Rightarrow> Some e | None \<Rightarrow> Add env);
                        tr = (case err of
                                Some e \<Rightarrow> tr @ [Log ''Failed to initialize watcher: %v'' [e]]
                              | None \<Rightarrow> tr)
                    in (case err of
                          None \<Rightarrow>
                            (case received env of
                               Event \<Rightarrow> (tr @ [WgWait], Returns None)
                             | WatchError e \<Rightarrow>
                                 (tr @ [Log ''Waiting failure: %v'' [e], WgWait],
                                  Returns (Some e)))
                        | Some e \<Rightarrow> (tr, Blocks)))))"

text \<open>
  \<^verbatim>\<open>func main()\<close>, lines 206-211: the exit status of the process and what it writes to
  standard error. Returning from \<^verbatim>\<open>main\<close> is exit status 0.
\<close>

datatype exit = Exit nat string

definition main :: "environment \<Rightarrow> exit outcome" where
  "main env =
     (case snd (mainImpl env) of
        Returns None \<Rightarrow> Returns (Exit 0 [])
      | Returns (Some err) \<Rightarrow> Returns (Exit 1 (''pullhook: '' @ err @ ''.\<newline>''))
      | Blocks \<Rightarrow> Blocks)"

text \<open>
  Claim C10. When the working directory, the executable and the port are obtained, the
  watcher is created and watches the executable, and the \<^verbatim>\<open>select\<close> receives an event,
  \<^verbatim>\<open>mainImpl\<close> waits on the wait group last and returns nil, and the process exits with
  status 0 and no diagnostic. The process exits with status 1 exactly when \<^verbatim>\<open>mainImpl\<close>
  returns a non-nil error, with that error in the diagnostic; and \<^verbatim>\<open>mainImpl\<close> returns a
  non-nil error exactly when \<^verbatim>\<open>os.Getwd\<close> fails, or \<^verbatim>\<open>osext.Executable\<close> fails, or
  \<^verbatim>\<open>net.Listen\<close> fails, or the established watcher delivers an error.
\<close>

theorem mainImpl_exit:
  "(Getwd env = Inr wd \<and> Executable env = Inr thisFile \<and> Listen env = Inr a \<and>
    NewWatcher env = None \<and> Add env = None \<and> received env = Event \<longrightarrow>
      snd (mainImpl env) = Returns None \<and> last (fst (mainImpl env)) = WgWait \<and>
      main env = Returns (Exit 0 [])) \<and>
   (main env = Returns (Exit 1 msg) \<longleftrightarrow>
      (\<exists>err. snd (mainImpl env) = Returns (Some err) \<and> msg = ''pullhook: '' @ err @ ''.\<newline>'')) \<and>
   (snd (mainImpl env) = Returns (Some err) \<longleftrightarrow>
      Getwd env = Inl err \<or>
      (\<exists>wd. Getwd env = Inr wd) \<and> Executable env = Inl err \<or>
      (\<exists>wd. Getwd env = Inr wd) \<and> (\<exists>f. Executable env = Inr f) \<and> Listen env = Inl err \<or>
      (\<exists>wd. Getwd env = Inr wd) \<and> (\<exists>f. Executable env = Inr f) \<and> (\<exists>a. Listen env = Inr a) \<and>
        NewWatcher env = None \<and> Add env = None \<and> received env = WatchError err)"
proof (intro conjI)
  show "Getwd env = Inr wd \<and> Executable env = Inr thisFile \<and> Listen env = Inr a \<and>
    NewWatcher env = None \<and> Add env = None \<and> received env = Event \<longrightarrow>
      snd (mainImpl env) = Returns None \<and> last (fst (mainImpl env)) = WgWait \<and>
      main env = Returns (Exit 0 [])"
    by (simp add: mainImpl_def main_def)
  show "main env = Returns (Exit 1 msg) \<longleftrightarrow>
      (\<exists>err. snd (mainImpl env) = Returns (Some err) \<and> msg = ''pullhook: '' @ err @ ''.\<newline>'')"
    by (auto simp: main_def split: outcome.splits option.splits)
  show "snd (mainImpl env) = Returns (Some err) \<longleftrightarrow>
      Getwd env = Inl err \<or>
      (\<exists>wd. Getwd env = Inr wd) \<and> Executable env = Inl err \<or>
      (\<exists>wd. Getwd env = Inr wd) \<and> (\<exists>f. Executable env = Inr f) \<and> Listen env = Inl err \<or>
      (\<exists>wd. Getwd env = Inr wd) \<and> (\<exists>f. Executable env = Inr f) \<and> (\<exists>a. Listen env = Inr a) \<and>
        NewWatcher env = None \<and> Add env = None \<and> received env = WatchError err"
    by (auto simp: mainImpl_def Let_def split: sum.splits option.splits watch_event.splits)
qed

text \<open>A start in which everything is obtained, and the same start with the port taken.\<close>

definition env0 :: environment where
  "env0 =
     \<lparr>port = 8080, secret = ''secret'', Getwd = Inr ''/srv/checkout'',
      Executable = Inr ''/usr/local/bin/pullhook'', Listen = Inr ''[::]:8080'',
      NewWatcher = None, Add = None, received = Event\<rparr>"

theorem mainImpl_exit_witness:
  "main env0 = Returns (Exit 0 []) \<and>
   snd (mainImpl env0) = Returns None \<and>
   last (fst (mainImpl env0)) = WgWait \<and>
   main (env0\<lparr>Listen := Inl ''listen tcp :8080: bind: address already in use''\<rparr>)
     = Returns (Exit 1 ''pullhook: listen tcp :8080: bind: address already in use.\<newline>'') \<and>
   main (env0\<lparr>received := WatchError ''overflow''\<rparr>)
     = Returns (Exit 1 ''pullhook: overflow.\<newline>'')"
proof -
  have "main env0 = Returns (Exit 0 []) \<and> snd (mainImpl env0) = Returns None \<and>
      last (fst (mainImpl env0)) = WgWait"
    using mainImpl_exit [of env0 "''/srv/checkout''" "''/usr/local/bin/pullhook''" "''[::]:8080''"]
    by (simp add: env0_def)
  moreover have "main (env0\<lparr>Listen := Inl ''listen tcp :8080: bind: address already in use''\<rparr>)
     = Returns (Exit 1 ''pullhook: listen tcp :8080: bind: address already in use.\<newline>'')"
    by (simp add: main_def mainImpl_def env0_def)
  moreover have "main (env0\<lparr>received := WatchError ''overflow''\<rparr>)
     = Returns (Exit 1 ''pullhook: overflow.\<newline>'')"
    by (simp add: main_def mainImpl_def env0_def)
  ultimately show ?thesis by simp
qed

section \<open>Goroutines\<close>

text \<open>
  \<^verbatim>\<open>net/http\<close> runs the handler of each connection in a goroutine of its own, beside
  the goroutine of \<^verbatim>\<open>mainImpl\<close>. A state of the process holds the server's mutex and
  wait group, the number of subprocesses that have been started and have not yet exited,
  and for every goroutine the effects it has still to perform. A step lets one goroutine
  perform its next effect. \<^verbatim>\<open>Lock\<close> can be taken only while the mutex is free and
  \<^verbatim>\<open>Wait\<close> returns only while the counter is zero; \<^verbatim>\<open>Unlock\<close> of a free mutex and
  \<^verbatim>\<open>Done\<close> at zero are run-time errors and cannot be stepped.
\<close>

record process =
  srv :: server
  running :: nat
  goroutines :: "effect list list"

fun enabled :: "server \<Rightarrow> effect \<Rightarrow> bool" where
  "enabled s Lock \<longleftrightarrow> \<not> mu s"
| "enabled s Unlock \<longleftrightarrow> mu s"
| "enabled s WgDone \<longleftrightarrow> 0 < wg s"
| "enabled s WgWait \<longleftrightarrow> wg s = 0"
| "enabled s _ \<longleftrightarrow> True"

fun perform :: "effect \<Rightarrow> process \<Rightarrow> process" where
  "perform Lock p = p\<lparr>srv := (srv p)\<lparr>mu := True\<rparr>\<rparr>"
| "perform Unlock p = p\<lparr>srv := (srv p)\<lparr>mu := False\<rparr>\<rparr>"
| "perform WgAdd p = p\<lparr>srv := (srv p)\<lparr>wg := wg (srv p) + 1\<rparr>\<rparr>"
| "perform WgDone p = p\<lparr>srv := (srv p)\<lparr>wg := wg (srv p) - 1\<rparr>\<rparr>"
| "perform (CmdStart c) p = p\<lparr>running := running p + 1\<rparr>"
| "perform CmdDone p = p\<lparr>running := running p - 1\<rparr>"
| "perform _ p = p"

definition step :: "nat \<Rightarrow> process \<Rightarrow> process option" where
  "step i p =
     (if i < length (goroutines p) then
        (case goroutines p ! i of
           [] \<Rightarrow> None
         | e # rest \<Rightarrow>
             if enabled (srv p) e
             then Some (perform e (p\<lparr>goroutines := (goroutines p)[i := rest]\<rparr>))
             else None)
      else None)"

text \<open>A schedule names the goroutine of each step; it fails where that goroutine cannot step.\<close>

fun run :: "nat list \<Rightarrow> process \<Rightarrow> process option" where
  "run [] p = Some p"
| "run (i # sched) p = (case step i p of None \<Rightarrow> None | Some p' \<Rightarrow> run sched p')"

definition start :: "server \<Rightarrow> effect list list \<Rightarrow> process" where
  "start s gs = \<lparr>srv = s, running = 0, goroutines = gs\<rparr>"

text \<open>The synchronization operations, none of which the handler performs.\<close>

fun is_sync :: "effect \<Rightarrow> bool" where
  "is_sync Lock = True"
| "is_sync Unlock = True"
| "is_sync WgAdd = True"
| "is_sync WgDone = True"
| "is_sync WgWait = True"
| "is_sync _ = False"

lemma process_event_no_sync: "filter is_sync (process_event event) = []"
  by (cases event rule: process_event.cases)
    (auto simp: pullRepo_effects_def split: option.splits)

lemma ServeHTTP_no_sync: "filter is_sync (ServeHTTP gh s uptime r) = []"
  by (auto simp: ServeHTTP_def Let_def process_event_no_sync split: sum.splits)

text \<open>Steps of goroutines that perform no synchronization leave the mutex and the counter alone.\<close>

lemma step_keeps_srv:
  assumes "step i p = Some p'" and "\<forall>g \<in> set (goroutines p). filter is_sync g = []"
  shows "srv p' = srv p \<and> (\<forall>g \<in> set (goroutines p'). filter is_sync g = [])"
proof -
  from assms(1) obtain e rest where i: "i < length (goroutines p)"
      and g: "goroutines p ! i = e # rest"
      and p': "p' = perform e (p\<lparr>goroutines := (goroutines p)[i := rest]\<rparr>)"
    by (auto simp: step_def split: if_splits list.splits)
  have "e # rest \<in> set (goroutines p)" using i g by (metis nth_mem)
  then have er: "filter is_sync (e # rest) = []" using assms(2) by blast
  then have e: "\<not> is_sync e" and rest: "filter is_sync rest = []"
    by (auto split: if_splits)
  have "\<forall>g \<in> set ((goroutines p)[i := rest]). filter is_sync g = []"
    using assms(2) rest by (auto dest!: set_update_subset_insert [THEN subsetD])
  then show ?thesis
    using e unfolding p' by (cases e) simp_all
qed

lemma run_keeps_srv:
  "run sched p = Some p' \<Longrightarrow> \<forall>g \<in> set (goroutines p). filter is_sync g = [] \<Longrightarrow> srv p' = srv p"
proof (induction sched arbitrary: p)
  case Nil
  then show ?case by simp
next
  case (Cons i sched)
  from Cons.prems(1) obtain q where q: "step i p = Some q" and r: "run sched q = Some p'"
    by (auto split: option.splits)
  from step_keeps_srv [OF q Cons.prems(2)] Cons.IH [OF r] show ?case by simp
qed

text \<open>
  Whatever requests are being handled and however far their handlers have got, the
  mutex is free and the counter of the wait group is zero.
\<close>

lemma handlers_never_sync:
  assumes "run sched (start s (map (ServeHTTP gh s uptime) rs)) = Some p"
  shows "mu (srv p) = mu s \<and> wg (srv p) = wg s"
  using run_keeps_srv [OF assms] by (simp add: start_def ServeHTTP_no_sync)

subsection \<open>Claim C2: overlapping pulls\<close>

definition push_handler :: "effect list" where
  "push_handler = ServeHTTP (delivers ''push'' push_commit) srv0 0 (request ''POST'' ''/'')"

lemma push_handler_effects:
  "push_handler =
     [Log ''%-4s %-21s %s'' [''POST'', ''192.0.2.1:4711'', ''/''],
      Log ''- Push %s %s %s'' [''maruel/pullhook'', ''refs/heads/master'', ''0123abc''],
      Log ''- %s'' [''git pull --prune --quiet''],
      CmdStart cmd,
      CmdDone,
      WriteString ''{}'',
      BodyClose]"
  by (simp add: push_handler_def ServeHTTP_def example_simps push_commit_def
      pullRepo_effects_def panicked_def cmd_def)

text \<open>
  Claim C2, which the server does not satisfy. Two signed pushes with a head commit are
  handled at the same time. The first handler runs up to the start of its \<^verbatim>\<open>git pull\<close>,
  then the second does the same: two subprocesses are running at once, and the mutex,
  which no handler locks, is free.
\<close>

theorem two_pulls_overlap:
  "map_option (\<lambda>p. (running p, mu (srv p)))
     (run [0, 0, 0, 0, 1, 1, 1, 1] (start srv0 [push_handler, push_handler]))
   = Some (2, False)"
  by (simp add: push_handler_effects start_def step_def srv0_def)

subsection \<open>Claim C4: the wait group\<close>

text \<open>
  Claim C4, which the server does not satisfy. While the handler of a signed push is
  waiting for its \<^verbatim>\<open>git pull\<close>, the executable is replaced: \<^verbatim>\<open>mainImpl\<close> performs all
  its effects, \<^verbatim>\<open>s.wg.Wait()\<close> included, and returns. The counter of the wait group is
  zero although a pull is running, so that the wait does not block and the process
  exits with the pull in flight.
\<close>

theorem wait_group_never_counts:
  "map_option (\<lambda>p. (goroutines p ! 0, running p, wg (srv p)))
     (run [1, 1, 1, 1, 0, 0, 0, 0, 0] (start srv0 [fst (mainImpl env0), push_handler]))
   = Some ([], 1, 0)"
  by (simp add: push_handler_effects start_def step_def srv0_def mainImpl_def env0_def)

end
